theory Spec2Isabelle
  imports Main "HOL-Library.Word"
begin

section \<open>Values thrown by the program\<close>

text \<open>
  The library throws one class of its own, \<^verbatim>\<open>DigiIDError(message)\<close> (types.ts), and lets
  values of other classes pass through in one place. A thrown value that is not a
  \<^verbatim>\<open>DigiIDError\<close> is kept with the two things the code reads from it: its
  \<^verbatim>\<open>message\<close> property (absent for a value that has none) and its conversion to a string.
  The thrown values modelled are those a property can be read from; \<^verbatim>\<open>null\<close> and
  \<^verbatim>\<open>undefined\<close>, on which reading \<^verbatim>\<open>message\<close> itself throws, are not among them.
\<close>

datatype js_error =
    DigiIDError string
  | OtherError "string option" string

text \<open>\<^verbatim>\<open>${e.message || e}\<close>: the message when it is a non-empty string, else the
  conversion of the value to a string (an \<^verbatim>\<open>Error\<close> with an empty message prints its name).\<close>

definition message_or_string :: "js_error \<Rightarrow> string" where
  "message_or_string e =
     (case e of
        DigiIDError m \<Rightarrow> (if m \<noteq> [] then m else ''DigiIDError'')
      | OtherError None s \<Rightarrow> s
      | OtherError (Some m) s \<Rightarrow> (if m \<noteq> [] then m else s))"

text \<open>\<^verbatim>\<open>${(error as Error).message}\<close>: a missing property prints as \<^verbatim>\<open>undefined\<close>.\<close>

definition message_text :: "js_error \<Rightarrow> string" where
  "message_text e =
     (case e of
        DigiIDError m \<Rightarrow> m
      | OtherError None s \<Rightarrow> ''undefined''
      | OtherError (Some m) s \<Rightarrow> m)"

section \<open>Data model (types.ts)\<close>

text \<open>
  An optional field is an \<open>option\<close>. \<^verbatim>\<open>callbackUrl\<close> is declared required, but the
  function tests it for absence and the test suite calls it with \<^verbatim>\<open>{}\<close>, so it is an
  \<open>option\<close> too.
\<close>

record DigiIDUriOptions =
  callbackUrl :: "string option"
  nonce :: "string option"
  unsecure :: "bool option"

record DigiIDCallbackData =
  address :: string
  uri :: string
  signature :: string

text \<open>The parsed form of a URL: the four properties of the platform's \<^verbatim>\<open>URL\<close> object that
  the program reads. \<^verbatim>\<open>searchParams\<close> is the ordered list of decoded name/value pairs.\<close>

record URL =
  protocol :: string
  host :: string
  pathname :: string
  searchParams :: "(string \<times> string) list"

text \<open>\<^verbatim>\<open>expectedCallbackUrl: string | URL\<close>.\<close>

datatype string_or_URL = Str string | Obj URL

record DigiIDVerifyOptions =
  expectedCallbackUrl :: string_or_URL
  expectedNonce :: "string option"

record DigiIDVerificationResult =
  isValid :: bool
  res_address :: string
  res_nonce :: string

text \<open>\<^verbatim>\<open>searchParams.get(name)\<close>: the value of the first pair with that name, else null.\<close>

definition searchParams_get :: "URL \<Rightarrow> string \<Rightarrow> string option" where
  "searchParams_get u name = map_of (searchParams u) name"

text \<open>Truthiness of an optional boolean and of an optional string.\<close>

definition truthy_bool :: "bool option \<Rightarrow> bool" where
  "truthy_bool b = (case b of None \<Rightarrow> False | Some v \<Rightarrow> v)"

definition truthy_string :: "string option \<Rightarrow> bool" where
  "truthy_string s = (case s of None \<Rightarrow> False | Some v \<Rightarrow> v \<noteq> [])"

section \<open>Nonce generation\<close>

text \<open>
  \<^verbatim>\<open>randomBytes(length)\<close> of the platform returns \<open>length\<close> bytes. The entropy source is a
  parameter, the sequence of bytes it delivers; the test suite replaces it by the constant
  byte \<open>0x61\<close>. \<^verbatim>\<open>toString('hex')\<close> prints each byte as two lowercase hexadecimal digits.
\<close>

definition randomBytes :: "(nat \<Rightarrow> 8 word) \<Rightarrow> nat \<Rightarrow> 8 word list" where
  "randomBytes entropy n = map entropy [0..<n]"

definition hexDigit :: "nat \<Rightarrow> char" where
  "hexDigit d = ''0123456789abcdef'' ! d"

definition toHex :: "8 word list \<Rightarrow> string" where
  "toHex bs = concat (map (\<lambda>b. [hexDigit (unat b div 16), hexDigit (unat b mod 16)]) bs)"

definition generateNonce :: "(nat \<Rightarrow> 8 word) \<Rightarrow> nat \<Rightarrow> string" where
  "generateNonce entropy n = toHex (randomBytes entropy n)"

section \<open>generateDigiIDUri\<close>

text \<open>
  The URL parser of the platform (\<^verbatim>\<open>new URL(s)\<close>) is a parameter: it returns the parsed
  URL or the message of the \<^verbatim>\<open>TypeError\<close> it throws. The steps follow the source in order:
  presence of the callback URL, parsing, host + pathname, nonce (\<^verbatim>\<open>options.nonce ||
  generateNonce()\<close>), flag, the two scheme checks, and the concatenation.
\<close>

definition generateDigiIDUri ::
  "(string \<Rightarrow> string + URL) \<Rightarrow> (nat \<Rightarrow> 8 word) \<Rightarrow> DigiIDUriOptions \<Rightarrow> js_error + string" where
  "generateDigiIDUri URL_new entropy options =
    (if \<not> truthy_string (callbackUrl options)
     then Inl (DigiIDError ''Callback URL is required.'')
     else
       (case URL_new (the (callbackUrl options)) of
          Inl m \<Rightarrow> Inl (DigiIDError (''Invalid callback URL: '' @ m))
        | Inr parsedUrl \<Rightarrow>
            (let domainAndPath = host parsedUrl @ pathname parsedUrl;
                 nonceValue = (if truthy_string (nonce options) then the (nonce options)
                               else generateNonce entropy 16);
                 unsecureFlag = (if truthy_bool (unsecure options) then ''1'' else ''0'')
             in if truthy_bool (unsecure options) \<and> protocol parsedUrl \<noteq> ''http:''
                then Inl (DigiIDError
                  ''Unsecure flag is true, but callback URL does not use http protocol.'')
                else if \<not> truthy_bool (unsecure options) \<and> protocol parsedUrl \<noteq> ''https:''
                then Inl (DigiIDError
                  ''Callback URL must use https protocol unless unsecure flag is set to true.'')
                else Inr (''digiid://'' @ domainAndPath @ ''?x='' @ nonceValue
                          @ ''&u='' @ unsecureFlag))))"

section \<open>Signature verification helper\<close>

text \<open>
  \<^verbatim>\<open>_internalVerifySignature(uri, address, signature)\<close> loads the message library and asks
  it to verify. The library is a parameter; what it does on one call is one of: loading
  it throws (the \<^verbatim>\<open>require\<close> stands before the \<^verbatim>\<open>try\<close>; the module loader throws an
  error of the platform, which is not a \<^verbatim>\<open>DigiIDError\<close>, given by its message and its
  string form), it returns a value (read for its truthiness by \<^verbatim>\<open>!!\<close>), or constructing
  the message or verifying throws, which the helper catches and throws again as a
  \<^verbatim>\<open>DigiIDError\<close>.
\<close>

datatype lib_outcome =
    RequireThrows "string option" string
  | LibReturns bool
  | LibThrows js_error

definition internalVerifySignature ::
  "(string \<Rightarrow> string \<Rightarrow> string \<Rightarrow> lib_outcome) \<Rightarrow> string \<Rightarrow> string \<Rightarrow> string \<Rightarrow> js_error + bool" where
  "internalVerifySignature lib u a s =
    (case lib u a s of
       RequireThrows m str \<Rightarrow> Inl (OtherError m str)
     | LibReturns b \<Rightarrow> Inr b
     | LibThrows e \<Rightarrow>
         Inl (DigiIDError (''Signature verification failed: '' @ message_or_string e)))"

section \<open>verifyDigiIDCallback\<close>

text \<open>\<^verbatim>\<open>uri.replace(/^digiid:/, 'http:')\<close>: only a leading \<^verbatim>\<open>digiid:\<close> is replaced.\<close>

definition replace_digiid :: "string \<Rightarrow> string" where
  "replace_digiid u = (if take 7 u = ''digiid:'' then ''http:'' @ drop 7 u else u)"

text \<open>The messages that carry values.\<close>

definition callback_mismatch_message :: "string \<Rightarrow> string \<Rightarrow> string" where
  \<open>callback_mismatch_message received expected =
     ''Callback URL mismatch: URI contained "'' @ received @ ''", expected "'' @ expected @ ''"''\<close>

definition nonce_mismatch_message :: "string \<Rightarrow> string \<Rightarrow> string" where
  \<open>nonce_mismatch_message received expected =
     ''Nonce mismatch: URI contained "'' @ received @ ''", expected "'' @ expected
       @ ''". Possible replay attack.''\<close>

text \<open>
  The verifier is the source's pipeline, in its order. The promise it returns is modelled
  by its outcome: \<open>Inl\<close> is the rejection, \<open>Inr\<close> the resolved value. The helper it
  awaits is a parameter (the test suite replaces it by a stub); in production it is
  \<open>internalVerifySignature\<close> of the message library. The \<^verbatim>\<open>catch\<close> around the helper
  also catches the \<^verbatim>\<open>DigiIDError('Invalid signature.')\<close> thrown inside the \<^verbatim>\<open>try\<close>, and
  throws it again as it is.
\<close>

definition verifyDigiIDCallback ::
  "(string \<Rightarrow> string + URL) \<Rightarrow> (string \<Rightarrow> string \<Rightarrow> string \<Rightarrow> js_error + bool) \<Rightarrow>
   DigiIDCallbackData \<Rightarrow> DigiIDVerifyOptions \<Rightarrow> js_error + DigiIDVerificationResult" where
  "verifyDigiIDCallback URL_new verifySignature callbackData verifyOptions =
    (if address callbackData = [] \<or> uri callbackData = [] \<or> signature callbackData = []
     then Inl (DigiIDError ''Missing required callback data: address, uri, or signature.'')
     else
       (case URL_new (replace_digiid (uri callbackData)) of
          Inl m \<Rightarrow> Inl (DigiIDError (''Invalid URI received in callback: '' @ m))
        | Inr parsedReceivedUri \<Rightarrow>
            (let receivedNonce = searchParams_get parsedReceivedUri ''x'';
                 receivedUnsecure = searchParams_get parsedReceivedUri ''u'';
                 receivedDomainAndPath = host parsedReceivedUri @ pathname parsedReceivedUri
             in if receivedNonce = None \<or> receivedUnsecure = None
                then Inl (DigiIDError ''URI missing nonce (x) or unsecure (u) parameter.'')
                else
                  (case (case expectedCallbackUrl verifyOptions of
                           Str s \<Rightarrow> URL_new s
                         | Obj u \<Rightarrow> Inr u) of
                     Inl m \<Rightarrow> Inl (DigiIDError (''Invalid expectedCallbackUrl provided: '' @ m))
                   | Inr parsedExpectedUrl \<Rightarrow>
                       (let expectedDomainAndPath =
                              host parsedExpectedUrl @ pathname parsedExpectedUrl;
                            expectedScheme = protocol parsedExpectedUrl
                        in if receivedDomainAndPath \<noteq> expectedDomainAndPath
                           then Inl (DigiIDError (callback_mismatch_message
                                       receivedDomainAndPath expectedDomainAndPath))
                           else if receivedUnsecure = Some ''1'' \<and> expectedScheme \<noteq> ''http:''
                           then Inl (DigiIDError
                             ''URI indicates unsecure (u=1), but expectedCallbackUrl is not http.'')
                           else if receivedUnsecure = Some ''0'' \<and> expectedScheme \<noteq> ''https:''
                           then Inl (DigiIDError
                             ''URI indicates secure (u=0), but expectedCallbackUrl is not https.'')
                           else if truthy_string (expectedNonce verifyOptions)
                                   \<and> the receivedNonce \<noteq> the (expectedNonce verifyOptions)
                           then Inl (DigiIDError (nonce_mismatch_message
                                       (the receivedNonce) (the (expectedNonce verifyOptions))))
                           else
                             (case verifySignature (uri callbackData) (address callbackData)
                                     (signature callbackData) of
                                Inr isValidSignature \<Rightarrow>
                                  if \<not> isValidSignature
                                  then Inl (DigiIDError ''Invalid signature.'')
                                  else Inr \<lparr>isValid = True,
                                            res_address = address callbackData,
                                            res_nonce = the receivedNonce\<rparr>
                              | Inl (DigiIDError m) \<Rightarrow> Inl (DigiIDError m)
                              | Inl (OtherError m s) \<Rightarrow>
                                  Inl (DigiIDError
                                    (''Unexpected error during signature verification: ''
                                     @ message_text (OtherError m s)))))))))"

section \<open>A model of the platform's URL parser\<close>

text \<open>
  The closed examples below need a parser to run. \<open>URL_new\<close> models \<^verbatim>\<open>new URL(s)\<close> of
  the platform (the WHATWG URL parser) on a fragment of its inputs, and on that fragment
  returns the properties the platform returns:
  \<^item> the input is \<^verbatim>\<open>http://\<close> or \<^verbatim>\<open>https://\<close>, an authority, and optionally a path, a
    \<^verbatim>\<open>?\<close> query and a \<^verbatim>\<open>#\<close> fragment;
  \<^item> the authority is a host name of dot-separated labels of lowercase letters and digits,
    each starting with a letter, optionally followed by \<^verbatim>\<open>:\<close> and a port of one to four
    digits without a leading zero; the port is dropped from \<^verbatim>\<open>host\<close> when it is the default
    port of the scheme (80 for http, 443 for https);
  \<^item> the path consists of letters, digits, \<^verbatim>\<open>/\<close>, \<^verbatim>\<open>-\<close> and \<^verbatim>\<open>_\<close>, so no percent-encoding and
    no dot segment arises; \<^verbatim>\<open>pathname\<close> is the path, and \<^verbatim>\<open>/\<close> when the path is empty;
  \<^item> the query consists of letters, digits, \<^verbatim>\<open>-\<close>, \<^verbatim>\<open>_\<close>, \<^verbatim>\<open>=\<close> and \<^verbatim>\<open>&\<close>; \<^verbatim>\<open>searchParams\<close>
    holds its non-empty \<^verbatim>\<open>&\<close>-separated pieces, each split at its first \<^verbatim>\<open>=\<close>.
  Any other input is rejected by the model with the platform's message \<^verbatim>\<open>Invalid URL\<close>,
  although the platform accepts many of them; an input with no \<^verbatim>\<open>:\<close> at all, such as
  \<^verbatim>\<open>invalid-url\<close>, is rejected by the platform as well. The general theorems below hold for
  every parser and do not depend on this model.
\<close>

definition is_lower :: "char \<Rightarrow> bool" where
  "is_lower c = (c \<in> set ''abcdefghijklmnopqrstuvwxyz'')"

definition is_upper :: "char \<Rightarrow> bool" where
  "is_upper c = (c \<in> set ''ABCDEFGHIJKLMNOPQRSTUVWXYZ'')"

definition is_digit :: "char \<Rightarrow> bool" where
  "is_digit c = (c \<in> set ''0123456789'')"

primrec splitOn :: "char \<Rightarrow> string \<Rightarrow> string list" where
  "splitOn sep [] = [[]]"
| "splitOn sep (c # cs) =
     (if c = sep then [] # splitOn sep cs
      else (case splitOn sep cs of
              [] \<Rightarrow> [[c]]
            | w # ws \<Rightarrow> (c # w) # ws))"

definition valid_label :: "string \<Rightarrow> bool" where
  "valid_label l = (l \<noteq> [] \<and> is_lower (hd l) \<and> list_all (\<lambda>c. is_lower c \<or> is_digit c) l)"

definition valid_hostname :: "string \<Rightarrow> bool" where
  "valid_hostname h = list_all valid_label (splitOn CHR ''.'' h)"

definition valid_port :: "string \<Rightarrow> bool" where
  "valid_port p = (p \<noteq> [] \<and> length p \<le> 4 \<and> list_all is_digit p \<and> hd p \<noteq> CHR ''0'')"

definition default_port :: "string \<Rightarrow> string" where
  "default_port scheme = (if scheme = ''http'' then ''80'' else ''443'')"

definition valid_path :: "string \<Rightarrow> bool" where
  "valid_path p = list_all (\<lambda>c. is_lower c \<or> is_upper c \<or> is_digit c
                                 \<or> c = CHR ''/'' \<or> c = CHR ''-'' \<or> c = CHR ''_'') p"

definition valid_query :: "string \<Rightarrow> bool" where
  "valid_query q = list_all (\<lambda>c. is_lower c \<or> is_upper c \<or> is_digit c
                                  \<or> c = CHR ''-'' \<or> c = CHR ''_'' \<or> c = CHR ''='' \<or> c = CHR ''&'') q"

definition parse_pair :: "string \<Rightarrow> string \<times> string" where
  "parse_pair piece =
     (takeWhile (\<lambda>c. c \<noteq> CHR ''='') piece, drop 1 (dropWhile (\<lambda>c. c \<noteq> CHR ''='') piece))"

definition parse_query :: "string \<Rightarrow> (string \<times> string) list" where
  "parse_query q = map parse_pair (filter (\<lambda>piece. piece \<noteq> []) (splitOn CHR ''&'' q))"

definition parse_scheme :: "string \<Rightarrow> (string \<times> string) option" where
  "parse_scheme s =
     (if take 8 s = ''https://'' then Some (''https'', drop 8 s)
      else if take 7 s = ''http://'' then Some (''http'', drop 7 s)
      else None)"

definition URL_new :: "string \<Rightarrow> string + URL" where
  "URL_new s =
     (case parse_scheme s of
        None \<Rightarrow> Inl ''Invalid URL''
      | Some (scheme, rest) \<Rightarrow>
          (let authority = takeWhile (\<lambda>c. c \<noteq> CHR ''/'' \<and> c \<noteq> CHR ''?'' \<and> c \<noteq> CHR ''#'') rest;
               rest1 = dropWhile (\<lambda>c. c \<noteq> CHR ''/'' \<and> c \<noteq> CHR ''?'' \<and> c \<noteq> CHR ''#'') rest;
               path = takeWhile (\<lambda>c. c \<noteq> CHR ''?'' \<and> c \<noteq> CHR ''#'') rest1;
               rest2 = dropWhile (\<lambda>c. c \<noteq> CHR ''?'' \<and> c \<noteq> CHR ''#'') rest1;
               query = (if take 1 rest2 = ''?''
                        then takeWhile (\<lambda>c. c \<noteq> CHR ''#'') (drop 1 rest2) else []);
               hostname = takeWhile (\<lambda>c. c \<noteq> CHR '':'') authority;
               colon_port = dropWhile (\<lambda>c. c \<noteq> CHR '':'') authority;
               port = drop 1 colon_port
           in if valid_hostname hostname \<and> (colon_port = [] \<or> valid_port port)
                 \<and> valid_path path \<and> valid_query query
              then Inr \<lparr>protocol = scheme @ '':'',
                        host = (if colon_port = [] \<or> port = default_port scheme
                                then hostname else hostname @ '':'' @ port),
                        pathname = (if path = [] then ''/'' else path),
                        searchParams = parse_query query\<rparr>
              else Inl ''Invalid URL''))"

text \<open>The entropy source of the test suite: every byte is \<open>0x61\<close>.\<close>

definition fixedEntropy :: "nat \<Rightarrow> 8 word" where
  "fixedEntropy i = 0x61"

text \<open>A message library that accepts every signature: the capability stub returning true.\<close>

definition acceptingLib :: "string \<Rightarrow> string \<Rightarrow> string \<Rightarrow> lib_outcome" where
  "acceptingLib u a s = LibReturns True"

text \<open>Three more message libraries for the examples: one that finds every signature
  invalid, one whose verification throws an error with a message, and one that cannot be
  loaded.\<close>

definition rejectingLib :: "string \<Rightarrow> string \<Rightarrow> string \<Rightarrow> lib_outcome" where
  "rejectingLib u a s = LibReturns False"

definition throwingLib :: "string \<Rightarrow> string \<Rightarrow> string \<Rightarrow> lib_outcome" where
  "throwingLib u a s =
     LibThrows (OtherError (Some ''Malformed signature'') ''Error: Malformed signature'')"

definition missingLib :: "string \<Rightarrow> string \<Rightarrow> string \<Rightarrow> lib_outcome" where
  "missingLib u a s =
     RequireThrows (Some ''Cannot find module'') ''Error: Cannot find module''"

section \<open>Lemmas shared by the proofs\<close>

text \<open>The definitions of the parser model, for evaluating it on a literal.\<close>

lemmas url_defs = URL_new_def parse_scheme_def valid_hostname_def valid_label_def valid_port_def
  valid_path_def valid_query_def parse_query_def parse_pair_def default_port_def
  is_lower_def is_upper_def is_digit_def replace_digiid_def

text \<open>The verifier after its first three steps have passed.\<close>

lemma verify_steps:
  assumes "address cb \<noteq> []" "uri cb \<noteq> []" "signature cb \<noteq> []"
    and "P (replace_digiid (uri cb)) = Inr pr"
    and "searchParams_get pr ''x'' = Some rn"
    and "searchParams_get pr ''u'' = Some ru"
    and "(case expectedCallbackUrl vo of Str s \<Rightarrow> P s | Obj u \<Rightarrow> Inr u) = Inr pe"
  shows "verifyDigiIDCallback P h cb vo =
     (if host pr @ pathname pr \<noteq> host pe @ pathname pe
      then Inl (DigiIDError (callback_mismatch_message (host pr @ pathname pr)
                               (host pe @ pathname pe)))
      else if ru = ''1'' \<and> protocol pe \<noteq> ''http:''
      then Inl (DigiIDError
             ''URI indicates unsecure (u=1), but expectedCallbackUrl is not http.'')
      else if ru = ''0'' \<and> protocol pe \<noteq> ''https:''
      then Inl (DigiIDError
             ''URI indicates secure (u=0), but expectedCallbackUrl is not https.'')
      else if truthy_string (expectedNonce vo) \<and> rn \<noteq> the (expectedNonce vo)
      then Inl (DigiIDError (nonce_mismatch_message rn (the (expectedNonce vo))))
      else (case h (uri cb) (address cb) (signature cb) of
              Inr b \<Rightarrow> if \<not> b then Inl (DigiIDError ''Invalid signature.'')
                       else Inr \<lparr>isValid = True, res_address = address cb, res_nonce = rn\<rparr>
            | Inl (DigiIDError m) \<Rightarrow> Inl (DigiIDError m)
            | Inl (OtherError m s) \<Rightarrow>
                Inl (DigiIDError (''Unexpected error during signature verification: ''
                                  @ message_text (OtherError m s)))))"
  using assms
  by (simp add: verifyDigiIDCallback_def Let_def split: sum.splits js_error.splits)

lemmas verify_unfold = verifyDigiIDCallback_def internalVerifySignature_def Let_def
  nonce_mismatch_message_def callback_mismatch_message_def

lemmas verify_splits = sum.splits string_or_URL.splits lib_outcome.splits js_error.splits

lemma verify_never_nonce_mismatch:
  assumes "\<not> truthy_string (expectedNonce vo)"
  shows "verifyDigiIDCallback P (internalVerifySignature lib) cb vo
           \<noteq> Inl (DigiIDError (nonce_mismatch_message r e))"
  using assms by (auto simp: verify_unfold split: verify_splits)

section \<open>Transport consistency of the verifier\<close>

text \<open>
  Claim C1. For a callback payload that passes the presence check, whose challenge URI
  parses with parameters \<open>x\<close> and \<open>u\<close>, and whose authority and path match the expected
  endpoint: \<open>u = 1\<close> with an expected scheme other than \<^verbatim>\<open>http:\<close> is rejected with the
  first scheme message, \<open>u = 0\<close> with an expected scheme other than \<^verbatim>\<open>https:\<close> with the
  second, whatever the helper does; and when neither branch applies, which includes every
  other value of \<open>u\<close>, the verifier with the production helper raises neither of the two
  scheme errors.
\<close>

theorem C1_transport_consistency:
  assumes "address cb \<noteq> []" "uri cb \<noteq> []" "signature cb \<noteq> []"
    and "P (replace_digiid (uri cb)) = Inr pr"
    and "searchParams_get pr ''x'' = Some rn"
    and "searchParams_get pr ''u'' = Some ru"
    and "(case expectedCallbackUrl vo of Str s \<Rightarrow> P s | Obj u \<Rightarrow> Inr u) = Inr pe"
    and "host pr @ pathname pr = host pe @ pathname pe"
  shows "(ru = ''1'' \<and> protocol pe \<noteq> ''http:'' \<longrightarrow>
            verifyDigiIDCallback P h cb vo = Inl (DigiIDError
              ''URI indicates unsecure (u=1), but expectedCallbackUrl is not http.''))
       \<and> (ru = ''0'' \<and> protocol pe \<noteq> ''https:'' \<longrightarrow>
            verifyDigiIDCallback P h cb vo = Inl (DigiIDError
              ''URI indicates secure (u=0), but expectedCallbackUrl is not https.''))
       \<and> (\<not> (ru = ''1'' \<and> protocol pe \<noteq> ''http:'') \<and> \<not> (ru = ''0'' \<and> protocol pe \<noteq> ''https:'') \<longrightarrow>
            verifyDigiIDCallback P (internalVerifySignature lib) cb vo \<noteq> Inl (DigiIDError
              ''URI indicates unsecure (u=1), but expectedCallbackUrl is not http.'')
          \<and> verifyDigiIDCallback P (internalVerifySignature lib) cb vo \<noteq> Inl (DigiIDError
              ''URI indicates secure (u=0), but expectedCallbackUrl is not https.''))"
proof -
  note steps = verify_steps[OF assms(1-7)]
  have a: "ru = ''1'' \<and> protocol pe \<noteq> ''http:'' \<longrightarrow>
            verifyDigiIDCallback P h cb vo = Inl (DigiIDError
              ''URI indicates unsecure (u=1), but expectedCallbackUrl is not http.'')"
    using steps[of h] assms(8) by simp
  have b: "ru = ''0'' \<and> protocol pe \<noteq> ''https:'' \<longrightarrow>
            verifyDigiIDCallback P h cb vo = Inl (DigiIDError
              ''URI indicates secure (u=0), but expectedCallbackUrl is not https.'')"
    using steps[of h] assms(8) by simp
  have c: "\<not> (ru = ''1'' \<and> protocol pe \<noteq> ''http:'') \<and> \<not> (ru = ''0'' \<and> protocol pe \<noteq> ''https:'') \<longrightarrow>
            verifyDigiIDCallback P (internalVerifySignature lib) cb vo \<noteq> Inl (DigiIDError
              ''URI indicates unsecure (u=1), but expectedCallbackUrl is not http.'')
          \<and> verifyDigiIDCallback P (internalVerifySignature lib) cb vo \<noteq> Inl (DigiIDError
              ''URI indicates secure (u=0), but expectedCallbackUrl is not https.'')"
    using assms by (auto simp: verify_unfold split: verify_splits)
  from a b c show ?thesis by blast
qed

text \<open>The parser model on the literals of the examples.\<close>

lemma parse_challenge_abc_u1:
  "URL_new (replace_digiid ''digiid://example.com/callback?x=abc&u=1'') =
     Inr \<lparr>protocol = ''http:'', host = ''example.com'', pathname = ''/callback'',
          searchParams = [(''x'', ''abc''), (''u'', ''1'')]\<rparr>"
  by (simp add: url_defs)

lemma parse_challenge_abc_u0:
  "URL_new (replace_digiid ''digiid://example.com/callback?x=abc&u=0'') =
     Inr \<lparr>protocol = ''http:'', host = ''example.com'', pathname = ''/callback'',
          searchParams = [(''x'', ''abc''), (''u'', ''0'')]\<rparr>"
  by (simp add: url_defs)

lemma parse_https_callback:
  "URL_new ''https://example.com/callback'' =
     Inr \<lparr>protocol = ''https:'', host = ''example.com'', pathname = ''/callback'',
          searchParams = []\<rparr>"
  by (simp add: url_defs)

lemma parse_challenge_abc_u2:
  "URL_new (replace_digiid ''digiid://example.com/callback?x=abc&u=2'') =
     Inr \<lparr>protocol = ''http:'', host = ''example.com'', pathname = ''/callback'',
          searchParams = [(''x'', ''abc''), (''u'', ''2'')]\<rparr>"
  by (simp add: url_defs)

lemma parse_http_callback:
  "URL_new ''http://example.com/callback'' =
     Inr \<lparr>protocol = ''http:'', host = ''example.com'', pathname = ''/callback'',
          searchParams = []\<rparr>"
  by (simp add: url_defs)

text \<open>The tests "u=1 but expected URL is https" and "u=0 but expected URL is http", and a
  URI whose flag is \<open>2\<close>.\<close>

theorem C1_transport_consistency_witness:
  "verifyDigiIDCallback URL_new (internalVerifySignature acceptingLib)
     \<lparr>address = ''D7dVskXFpH8gTgZG9sN3d6dPUbJtZfJ2Vc'',
      uri = ''digiid://example.com/callback?x=abc&u=1'', signature = ''AAEC''\<rparr>
     \<lparr>expectedCallbackUrl = Str ''https://example.com/callback'', expectedNonce = Some ''abc''\<rparr>
   = Inl (DigiIDError ''URI indicates unsecure (u=1), but expectedCallbackUrl is not http.'')
   \<and> verifyDigiIDCallback URL_new (internalVerifySignature acceptingLib)
     \<lparr>address = ''D7dVskXFpH8gTgZG9sN3d6dPUbJtZfJ2Vc'',
      uri = ''digiid://example.com/callback?x=abc&u=0'', signature = ''AAEC''\<rparr>
     \<lparr>expectedCallbackUrl = Str ''http://example.com/callback'', expectedNonce = Some ''abc''\<rparr>
   = Inl (DigiIDError ''URI indicates secure (u=0), but expectedCallbackUrl is not https.'')
   \<and> verifyDigiIDCallback URL_new (internalVerifySignature acceptingLib)
     \<lparr>address = ''D7dVskXFpH8gTgZG9sN3d6dPUbJtZfJ2Vc'',
      uri = ''digiid://example.com/callback?x=abc&u=2'', signature = ''AAEC''\<rparr>
     \<lparr>expectedCallbackUrl = Str ''https://example.com/callback'', expectedNonce = Some ''abc''\<rparr>
   \<noteq> Inl (DigiIDError ''URI indicates secure (u=0), but expectedCallbackUrl is not https.'')"
proof -
  let ?a = "''D7dVskXFpH8gTgZG9sN3d6dPUbJtZfJ2Vc''"
  let ?https = "\<lparr>protocol = ''https:'', host = ''example.com'', pathname = ''/callback'',
                  searchParams = []\<rparr>"
  let ?http = "\<lparr>protocol = ''http:'', host = ''example.com'', pathname = ''/callback'',
                 searchParams = []\<rparr>"
  have a: "verifyDigiIDCallback URL_new (internalVerifySignature acceptingLib)
     \<lparr>address = ?a, uri = ''digiid://example.com/callback?x=abc&u=1'', signature = ''AAEC''\<rparr>
     \<lparr>expectedCallbackUrl = Str ''https://example.com/callback'', expectedNonce = Some ''abc''\<rparr>
   = Inl (DigiIDError ''URI indicates unsecure (u=1), but expectedCallbackUrl is not http.'')"
    using C1_transport_consistency[
      where cb = "\<lparr>address = ?a, uri = ''digiid://example.com/callback?x=abc&u=1'',
                    signature = ''AAEC''\<rparr>"
        and P = URL_new
        and pr = "\<lparr>protocol = ''http:'', host = ''example.com'', pathname = ''/callback'',
                    searchParams = [(''x'', ''abc''), (''u'', ''1'')]\<rparr>"
        and rn = "''abc''" and ru = "''1''"
        and vo = "\<lparr>expectedCallbackUrl = Str ''https://example.com/callback'',
                    expectedNonce = Some ''abc''\<rparr>"
        and pe = ?https and h = "internalVerifySignature acceptingLib"]
    by (simp add: parse_challenge_abc_u1 parse_https_callback searchParams_get_def)
  have b: "verifyDigiIDCallback URL_new (internalVerifySignature acceptingLib)
     \<lparr>address = ?a, uri = ''digiid://example.com/callback?x=abc&u=0'', signature = ''AAEC''\<rparr>
     \<lparr>expectedCallbackUrl = Str ''http://example.com/callback'', expectedNonce = Some ''abc''\<rparr>
   = Inl (DigiIDError ''URI indicates secure (u=0), but expectedCallbackUrl is not https.'')"
    using C1_transport_consistency[
      where cb = "\<lparr>address = ?a, uri = ''digiid://example.com/callback?x=abc&u=0'',
                    signature = ''AAEC''\<rparr>"
        and P = URL_new
        and pr = "\<lparr>protocol = ''http:'', host = ''example.com'', pathname = ''/callback'',
                    searchParams = [(''x'', ''abc''), (''u'', ''0'')]\<rparr>"
        and rn = "''abc''" and ru = "''0''"
        and vo = "\<lparr>expectedCallbackUrl = Str ''http://example.com/callback'',
                    expectedNonce = Some ''abc''\<rparr>"
        and pe = ?http and h = "internalVerifySignature acceptingLib"]
    by (simp add: parse_challenge_abc_u0 parse_http_callback searchParams_get_def)
  have c: "verifyDigiIDCallback URL_new (internalVerifySignature acceptingLib)
     \<lparr>address = ?a, uri = ''digiid://example.com/callback?x=abc&u=2'', signature = ''AAEC''\<rparr>
     \<lparr>expectedCallbackUrl = Str ''https://example.com/callback'', expectedNonce = Some ''abc''\<rparr>
   \<noteq> Inl (DigiIDError ''URI indicates secure (u=0), but expectedCallbackUrl is not https.'')"
    using C1_transport_consistency[
      where cb = "\<lparr>address = ?a, uri = ''digiid://example.com/callback?x=abc&u=2'',
                    signature = ''AAEC''\<rparr>"
        and P = URL_new
        and pr = "\<lparr>protocol = ''http:'', host = ''example.com'', pathname = ''/callback'',
                    searchParams = [(''x'', ''abc''), (''u'', ''2'')]\<rparr>"
        and rn = "''abc''" and ru = "''2''"
        and vo = "\<lparr>expectedCallbackUrl = Str ''https://example.com/callback'',
                    expectedNonce = Some ''abc''\<rparr>"
        and pe = ?https and lib = acceptingLib]
    by (simp add: parse_challenge_abc_u2 parse_https_callback searchParams_get_def)
  from a b c show ?thesis by blast
qed

text \<open>A flag other than \<open>0\<close> and \<open>1\<close> passes both branches: the callback is accepted.\<close>

lemma other_flag_value_passes:
  "verifyDigiIDCallback URL_new (internalVerifySignature acceptingLib)
     \<lparr>address = ''D7dVskXFpH8gTgZG9sN3d6dPUbJtZfJ2Vc'',
      uri = ''digiid://example.com/callback?x=abc&u=2'', signature = ''AAEC''\<rparr>
     \<lparr>expectedCallbackUrl = Str ''https://example.com/callback'', expectedNonce = Some ''abc''\<rparr>
   = Inr \<lparr>isValid = True, res_address = ''D7dVskXFpH8gTgZG9sN3d6dPUbJtZfJ2Vc'',
          res_nonce = ''abc''\<rparr>"
  by (simp add: verify_steps[where pr = "\<lparr>protocol = ''http:'', host = ''example.com'',
          pathname = ''/callback'', searchParams = [(''x'', ''abc''), (''u'', ''2'')]\<rparr>"
        and pe = "\<lparr>protocol = ''https:'', host = ''example.com'',
          pathname = ''/callback'', searchParams = []\<rparr>"
        and rn = "''abc''" and ru = "''2''"]
      parse_challenge_abc_u2 parse_https_callback searchParams_get_def
      truthy_string_def internalVerifySignature_def acceptingLib_def)

section \<open>Lemmas about the builder\<close>

text \<open>The builder once the callback URL is present and parses.\<close>

lemma generate_accepted:
  assumes "truthy_string (callbackUrl options)"
    and "P (the (callbackUrl options)) = Inr u"
  shows "generateDigiIDUri P entropy options =
     (if truthy_bool (unsecure options) \<and> protocol u \<noteq> ''http:''
      then Inl (DigiIDError
             ''Unsecure flag is true, but callback URL does not use http protocol.'')
      else if \<not> truthy_bool (unsecure options) \<and> protocol u \<noteq> ''https:''
      then Inl (DigiIDError
             ''Callback URL must use https protocol unless unsecure flag is set to true.'')
      else Inr (''digiid://'' @ (host u @ pathname u) @ ''?x=''
                @ (if truthy_string (nonce options) then the (nonce options)
                   else generateNonce entropy 16)
                @ ''&u='' @ (if truthy_bool (unsecure options) then ''1'' else ''0'')))"
  using assms by (simp add: generateDigiIDUri_def Let_def)

text \<open>The hexadecimal encoding: two characters per byte, all of them lowercase digits.\<close>

lemma length_toHex: "length (toHex bs) = 2 * length bs"
  by (induction bs) (simp_all add: toHex_def)

lemma hexDigit_range: "d < 16 \<Longrightarrow> hexDigit d \<in> set ''0123456789abcdef''"
  unfolding hexDigit_def by (rule nth_mem) simp

lemma unat_byte_div: "unat (b :: 8 word) div 16 < 16"
proof -
  have "unat b < 256" using unsigned_less[of b] by simp
  then show ?thesis by simp
qed

lemma set_toHex: "set (toHex bs) \<subseteq> set ''0123456789abcdef''"
proof (induction bs)
  case Nil
  show ?case by (simp add: toHex_def)
next
  case (Cons b bs)
  have hi: "hexDigit (unat b div 16) \<in> set ''0123456789abcdef''"
    by (rule hexDigit_range) (rule unat_byte_div)
  have lo: "hexDigit (unat b mod 16) \<in> set ''0123456789abcdef''"
    by (rule hexDigit_range) simp
  have "toHex (b # bs) = hexDigit (unat b div 16) # hexDigit (unat b mod 16) # toHex bs"
    by (simp add: toHex_def)
  with hi lo Cons.IH show ?case by simp
qed

lemma length_randomBytes: "length (randomBytes entropy n) = n"
  by (simp add: randomBytes_def)

lemma toHex_fixed16: "generateNonce fixedEntropy 16 = ''61616161616161616161616161616161''"
  by (simp add: generateNonce_def toHex_def randomBytes_def fixedEntropy_def hexDigit_def upt_rec)


lemma parse_https_callback_slash:
  "URL_new ''https://example.com/callback/'' =
     Inr \<lparr>protocol = ''https:'', host = ''example.com'', pathname = ''/callback/'',
          searchParams = []\<rparr>"
  by (simp add: url_defs)

lemma parse_https_no_path:
  "URL_new ''https://example.com'' =
     Inr \<lparr>protocol = ''https:'', host = ''example.com'', pathname = ''/'',
          searchParams = []\<rparr>"
  by (simp add: url_defs)

lemma parse_http_localhost:
  "URL_new ''http://localhost:3000/login'' =
     Inr \<lparr>protocol = ''http:'', host = ''localhost:3000'', pathname = ''/login'',
          searchParams = []\<rparr>"
  by (simp add: url_defs)

section \<open>The authority and path of the built URI\<close>

text \<open>
  Claim C2 as stated fails: the endpoint \<^verbatim>\<open>https://example.com\<close> has no path component and
  no trailing slash, yet the built URI carries \<^verbatim>\<open>example.com/\<close>, because the parser reports
  the pathname \<^verbatim>\<open>/\<close> for an empty path and the builder appends the pathname as it is.
\<close>

theorem C2_no_path_counterexample:
  "generateDigiIDUri URL_new fixedEntropy
     \<lparr>callbackUrl = Some ''https://example.com'', nonce = Some ''abc'', unsecure = None\<rparr>
   = Inr ''digiid://example.com/?x=abc&u=0''"
  by (simp add: generate_accepted[where u = "\<lparr>protocol = ''https:'', host = ''example.com'',
        pathname = ''/'', searchParams = []\<rparr>"] parse_https_no_path
      truthy_string_def truthy_bool_def)

text \<open>
  Claim C2, amended. For every callback URL accepted by the builder, the built URI is
  \<^verbatim>\<open>digiid://\<close>, then the host of the parsed URL followed by its pathname, then the query
  \<^verbatim>\<open>?x=nonce&u=flag\<close>: the scheme, query and fragment of the endpoint are not part of it,
  and the builder neither removes nor adds a slash to what the parser reports.
\<close>

theorem C2_authority_and_path:
  assumes "callbackUrl options = Some cb" and "cb \<noteq> []"
    and "P cb = Inr u"
    and "generateDigiIDUri P entropy options = Inr result"
  shows "result = ''digiid://'' @ (host u @ pathname u) @ ''?x=''
           @ (if truthy_string (nonce options) then the (nonce options)
              else generateNonce entropy 16)
           @ ''&u='' @ (if truthy_bool (unsecure options) then ''1'' else ''0'')"
proof -
  have t: "truthy_string (callbackUrl options)"
    using assms(1,2) by (simp add: truthy_string_def)
  have p: "P (the (callbackUrl options)) = Inr u"
    using assms(1,3) by simp
  show ?thesis
    using assms(4) unfolding generate_accepted[where P = P and options = options and u = u, OF t p]
    by (simp split: if_splits)
qed

text \<open>An endpoint with a trailing slash keeps it.\<close>

theorem C2_authority_and_path_witness:
  "URL_new ''https://example.com/callback/'' =
     Inr \<lparr>protocol = ''https:'', host = ''example.com'', pathname = ''/callback/'',
          searchParams = []\<rparr>
   \<and> generateDigiIDUri URL_new fixedEntropy
        \<lparr>callbackUrl = Some ''https://example.com/callback/'', nonce = Some ''abc'',
         unsecure = None\<rparr>
       = Inr ''digiid://example.com/callback/?x=abc&u=0''"
proof -
  let ?o = "\<lparr>callbackUrl = Some ''https://example.com/callback/'', nonce = Some ''abc'',
              unsecure = None\<rparr>"
  let ?u = "\<lparr>protocol = ''https:'', host = ''example.com'', pathname = ''/callback/'',
              searchParams = []\<rparr>"
  have g: "\<exists>r. generateDigiIDUri URL_new fixedEntropy ?o = Inr r"
    by (simp add: generate_accepted[where u = ?u] parse_https_callback_slash
          truthy_string_def truthy_bool_def)
  then obtain r where r: "generateDigiIDUri URL_new fixedEntropy ?o = Inr r" ..
  have "r = ''digiid://example.com/callback/?x=abc&u=0''"
    using C2_authority_and_path[of ?o "''https://example.com/callback/''" URL_new ?u
            fixedEntropy r] r parse_https_callback_slash
    by (simp add: truthy_string_def truthy_bool_def)
  with r parse_https_callback_slash show ?thesis by simp
qed

section \<open>The nonce of the built URI\<close>

text \<open>
  Claim C3 as stated fails: with the nonce field present and equal to the empty string,
  the builder does not use it as the \<open>x\<close> parameter; \<^verbatim>\<open>options.nonce || generateNonce()\<close>
  takes the empty string for absent and consults the random generator.
\<close>

theorem C3_empty_nonce_counterexample:
  "generateDigiIDUri URL_new fixedEntropy
     \<lparr>callbackUrl = Some ''https://example.com/callback'', nonce = Some [], unsecure = None\<rparr>
   = Inr ''digiid://example.com/callback?x=61616161616161616161616161616161&u=0''"
  by (simp add: generate_accepted[where u = "\<lparr>protocol = ''https:'', host = ''example.com'',
        pathname = ''/callback'', searchParams = []\<rparr>"] parse_https_callback
      truthy_string_def truthy_bool_def toHex_fixed16)

text \<open>
  Claim C3, amended. For an accepted callback URL: a nonce that is present and not the
  empty string is the \<open>x\<close> parameter verbatim, and the result does not depend on the
  entropy source; when the nonce is absent or the empty string, the \<open>x\<close> parameter is the
  hexadecimal encoding of 16 bytes of the entropy source, 32 characters, each a lowercase
  hexadecimal digit.
\<close>

theorem C3_nonce_resolution:
  assumes "callbackUrl options = Some cb" and "cb \<noteq> []"
    and "P cb = Inr u"
    and "generateDigiIDUri P entropy options = Inr result"
  shows "(nonce options = Some n \<and> n \<noteq> [] \<longrightarrow>
            result = ''digiid://'' @ (host u @ pathname u) @ ''?x='' @ n
                       @ ''&u='' @ (if truthy_bool (unsecure options) then ''1'' else ''0'')
            \<and> generateDigiIDUri P entropy' options = Inr result)
       \<and> (nonce options = None \<or> nonce options = Some [] \<longrightarrow>
            result = ''digiid://'' @ (host u @ pathname u) @ ''?x=''
                       @ toHex (randomBytes entropy 16)
                       @ ''&u='' @ (if truthy_bool (unsecure options) then ''1'' else ''0'')
            \<and> length (randomBytes entropy 16) = 16
            \<and> length (toHex (randomBytes entropy 16)) = 32
            \<and> set (toHex (randomBytes entropy 16)) \<subseteq> set ''0123456789abcdef'')"
proof -
  have t: "truthy_string (callbackUrl options)"
    using assms(1,2) by (simp add: truthy_string_def)
  have p: "P (the (callbackUrl options)) = Inr u"
    using assms(1,3) by simp
  note g = generate_accepted[where P = P and options = options and u = u, OF t p]
  have a: "nonce options = Some n \<and> n \<noteq> [] \<longrightarrow>
            result = ''digiid://'' @ (host u @ pathname u) @ ''?x='' @ n
                       @ ''&u='' @ (if truthy_bool (unsecure options) then ''1'' else ''0'')
            \<and> generateDigiIDUri P entropy' options = Inr result"
    using assms(4) unfolding g[of entropy] g[of entropy']
    by (auto simp: truthy_string_def split: if_splits)
  have b: "nonce options = None \<or> nonce options = Some [] \<longrightarrow>
            result = ''digiid://'' @ (host u @ pathname u) @ ''?x=''
                       @ toHex (randomBytes entropy 16)
                       @ ''&u='' @ (if truthy_bool (unsecure options) then ''1'' else ''0'')"
    using assms(4) unfolding g[of entropy]
    by (auto simp: truthy_string_def generateNonce_def split: if_splits)
  have c: "length (toHex (randomBytes entropy 16)) = 32"
    by (simp add: length_toHex length_randomBytes)
  from a b c length_randomBytes[of entropy 16] set_toHex[of "randomBytes entropy 16"]
  show ?thesis by blast
qed

text \<open>The test "should use the provided nonce".\<close>

theorem C3_nonce_resolution_witness:
  "generateDigiIDUri URL_new fixedEntropy
     \<lparr>callbackUrl = Some ''https://example.com/callback'',
      nonce = Some ''my-custom-nonce-123'', unsecure = None\<rparr>
   = Inr ''digiid://example.com/callback?x=my-custom-nonce-123&u=0''"
proof -
  let ?o = "\<lparr>callbackUrl = Some ''https://example.com/callback'',
              nonce = Some ''my-custom-nonce-123'', unsecure = None\<rparr>"
  let ?u = "\<lparr>protocol = ''https:'', host = ''example.com'', pathname = ''/callback'',
              searchParams = []\<rparr>"
  have "\<exists>r. generateDigiIDUri URL_new fixedEntropy ?o = Inr r"
    by (simp add: generate_accepted[where u = ?u] parse_https_callback
          truthy_string_def truthy_bool_def)
  then obtain r where r: "generateDigiIDUri URL_new fixedEntropy ?o = Inr r" ..
  have "r = ''digiid://example.com/callback?x=my-custom-nonce-123&u=0''"
    using C3_nonce_resolution[of ?o "''https://example.com/callback''" URL_new ?u
            fixedEntropy r "''my-custom-nonce-123''"] r parse_https_callback
    by (simp add: truthy_bool_def)
  with r show ?thesis by simp
qed

section \<open>Scheme and flag consistency of the builder\<close>

text \<open>
  Claim C4. For a callback URL that is present and parses: with the unsecure flag true, a
  scheme other than \<^verbatim>\<open>http:\<close> is rejected with the first message and \<^verbatim>\<open>http:\<close> gives a
  URI that ends with \<^verbatim>\<open>&u=1\<close>; with the flag false or unset, a scheme other than
  \<^verbatim>\<open>https:\<close> is rejected with the second message and \<^verbatim>\<open>https:\<close> gives a URI that ends
  with \<^verbatim>\<open>&u=0\<close>; the two messages differ.
\<close>

theorem C4_scheme_flag_consistency:
  assumes "callbackUrl options = Some cb" and "cb \<noteq> []"
    and "P cb = Inr u"
  shows "(unsecure options = Some True \<and> protocol u \<noteq> ''http:'' \<longrightarrow>
            generateDigiIDUri P entropy options = Inl (DigiIDError
              ''Unsecure flag is true, but callback URL does not use http protocol.''))
       \<and> (unsecure options = Some True \<and> protocol u = ''http:'' \<longrightarrow>
            (\<exists>body. generateDigiIDUri P entropy options = Inr (body @ ''&u=1'')))
       \<and> (unsecure options \<noteq> Some True \<and> protocol u \<noteq> ''https:'' \<longrightarrow>
            generateDigiIDUri P entropy options = Inl (DigiIDError
              ''Callback URL must use https protocol unless unsecure flag is set to true.''))
       \<and> (unsecure options \<noteq> Some True \<and> protocol u = ''https:'' \<longrightarrow>
            (\<exists>body. generateDigiIDUri P entropy options = Inr (body @ ''&u=0'')))
       \<and> ''Unsecure flag is true, but callback URL does not use http protocol.''
           \<noteq> ''Callback URL must use https protocol unless unsecure flag is set to true.''"
proof -
  have t: "truthy_string (callbackUrl options)"
    using assms(1,2) by (simp add: truthy_string_def)
  have p: "P (the (callbackUrl options)) = Inr u"
    using assms(1,3) by simp
  note g = generate_accepted[where P = P and options = options and u = u
             and entropy = entropy, OF t p]
  have f: "truthy_bool (unsecure options) = (unsecure options = Some True)"
    by (cases "unsecure options") (simp_all add: truthy_bool_def)
  have a: "unsecure options = Some True \<and> protocol u \<noteq> ''http:'' \<longrightarrow>
            generateDigiIDUri P entropy options = Inl (DigiIDError
              ''Unsecure flag is true, but callback URL does not use http protocol.'')"
    unfolding g f by simp
  have b: "unsecure options = Some True \<and> protocol u = ''http:'' \<longrightarrow>
            (\<exists>body. generateDigiIDUri P entropy options = Inr (body @ ''&u=1''))"
    unfolding g f by (simp del: append_assoc add: append_assoc[symmetric])
  have c: "unsecure options \<noteq> Some True \<and> protocol u \<noteq> ''https:'' \<longrightarrow>
            generateDigiIDUri P entropy options = Inl (DigiIDError
              ''Callback URL must use https protocol unless unsecure flag is set to true.'')"
    unfolding g f by simp
  have d: "unsecure options \<noteq> Some True \<and> protocol u = ''https:'' \<longrightarrow>
            (\<exists>body. generateDigiIDUri P entropy options = Inr (body @ ''&u=0''))"
    unfolding g f by (simp del: append_assoc add: append_assoc[symmetric])
  have e: "''Unsecure flag is true, but callback URL does not use http protocol.''
           \<noteq> ''Callback URL must use https protocol unless unsecure flag is set to true.''"
    by simp
  from a b c d e show ?thesis by blast
qed

text \<open>The four cases on the URLs of the test suite.\<close>

theorem C4_scheme_flag_consistency_witness:
  "generateDigiIDUri URL_new fixedEntropy
     \<lparr>callbackUrl = Some ''https://example.com/callback'', nonce = None,
      unsecure = Some True\<rparr>
   = Inl (DigiIDError ''Unsecure flag is true, but callback URL does not use http protocol.'')
   \<and> (\<exists>body. generateDigiIDUri URL_new fixedEntropy
     \<lparr>callbackUrl = Some ''http://localhost:3000/login'', nonce = None,
      unsecure = Some True\<rparr> = Inr (body @ ''&u=1''))
   \<and> generateDigiIDUri URL_new fixedEntropy
     \<lparr>callbackUrl = Some ''http://example.com/callback'', nonce = None, unsecure = None\<rparr>
   = Inl (DigiIDError
       ''Callback URL must use https protocol unless unsecure flag is set to true.'')
   \<and> (\<exists>body. generateDigiIDUri URL_new fixedEntropy
     \<lparr>callbackUrl = Some ''https://example.com/callback'', nonce = None,
      unsecure = None\<rparr> = Inr (body @ ''&u=0''))"
proof -
  let ?https = "\<lparr>protocol = ''https:'', host = ''example.com'', pathname = ''/callback'',
                  searchParams = []\<rparr>"
  let ?http = "\<lparr>protocol = ''http:'', host = ''example.com'', pathname = ''/callback'',
                 searchParams = []\<rparr>"
  let ?local = "\<lparr>protocol = ''http:'', host = ''localhost:3000'', pathname = ''/login'',
                  searchParams = []\<rparr>"
  have a: "generateDigiIDUri URL_new fixedEntropy
     \<lparr>callbackUrl = Some ''https://example.com/callback'', nonce = None,
      unsecure = Some True\<rparr>
   = Inl (DigiIDError ''Unsecure flag is true, but callback URL does not use http protocol.'')"
    using C4_scheme_flag_consistency[
      where options = "\<lparr>callbackUrl = Some ''https://example.com/callback'', nonce = None,
                         unsecure = Some True\<rparr>"
        and cb = "''https://example.com/callback''" and P = URL_new and u = ?https
        and entropy = fixedEntropy]
    by (simp add: parse_https_callback)
  have b: "\<exists>body. generateDigiIDUri URL_new fixedEntropy
     \<lparr>callbackUrl = Some ''http://localhost:3000/login'', nonce = None,
      unsecure = Some True\<rparr> = Inr (body @ ''&u=1'')"
    using C4_scheme_flag_consistency[
      where options = "\<lparr>callbackUrl = Some ''http://localhost:3000/login'', nonce = None,
                         unsecure = Some True\<rparr>"
        and cb = "''http://localhost:3000/login''" and P = URL_new and u = ?local
        and entropy = fixedEntropy]
    by (simp add: parse_http_localhost)
  have c: "generateDigiIDUri URL_new fixedEntropy
     \<lparr>callbackUrl = Some ''http://example.com/callback'', nonce = None, unsecure = None\<rparr>
   = Inl (DigiIDError
       ''Callback URL must use https protocol unless unsecure flag is set to true.'')"
    using C4_scheme_flag_consistency[
      where options = "\<lparr>callbackUrl = Some ''http://example.com/callback'', nonce = None,
                         unsecure = None\<rparr>"
        and cb = "''http://example.com/callback''" and P = URL_new and u = ?http
        and entropy = fixedEntropy]
    by (simp add: parse_http_callback)
  have d: "\<exists>body. generateDigiIDUri URL_new fixedEntropy
     \<lparr>callbackUrl = Some ''https://example.com/callback'', nonce = None,
      unsecure = None\<rparr> = Inr (body @ ''&u=0'')"
    using C4_scheme_flag_consistency[
      where options = "\<lparr>callbackUrl = Some ''https://example.com/callback'', nonce = None,
                         unsecure = None\<rparr>"
        and cb = "''https://example.com/callback''" and P = URL_new and u = ?https
        and entropy = fixedEntropy]
    by (simp add: parse_https_callback)
  from a b c d show ?thesis by blast
qed

section \<open>The default scenario\<close>

text \<open>
  Claim C5. With an entropy source that yields only the byte \<open>0x61\<close>, the builder called
  with the callback URL \<^verbatim>\<open>https://example.com/callback\<close> alone returns exactly
  \<^verbatim>\<open>digiid://example.com/callback?x=61616161616161616161616161616161&u=0\<close>.
\<close>

theorem C5_default_nonce_scenario:
  "generateDigiIDUri URL_new fixedEntropy
     \<lparr>callbackUrl = Some ''https://example.com/callback'', nonce = None, unsecure = None\<rparr>
   = Inr ''digiid://example.com/callback?x=61616161616161616161616161616161&u=0''"
  by (simp add: generate_accepted[where u = "\<lparr>protocol = ''https:'', host = ''example.com'',
        pathname = ''/callback'', searchParams = []\<rparr>"] parse_https_callback
      truthy_string_def truthy_bool_def toHex_fixed16)

section \<open>Building, then verifying\<close>

text \<open>More literals for the parser model, and the helper over the accepting library.\<close>

lemma parse_challenge_port80:
  "URL_new (replace_digiid ''digiid://example.com:80/callback?x=abc&u=0'') =
     Inr \<lparr>protocol = ''http:'', host = ''example.com'', pathname = ''/callback'',
          searchParams = [(''x'', ''abc''), (''u'', ''0'')]\<rparr>"
  by (simp add: url_defs)

lemma parse_https_port80:
  "URL_new ''https://example.com:80/callback'' =
     Inr \<lparr>protocol = ''https:'', host = ''example.com:80'', pathname = ''/callback'',
          searchParams = []\<rparr>"
  by (simp add: url_defs)

lemma parse_https_different:
  "URL_new ''https://different.com/callback'' =
     Inr \<lparr>protocol = ''https:'', host = ''different.com'', pathname = ''/callback'',
          searchParams = []\<rparr>"
  by (simp add: url_defs)

lemma accepting_helper: "internalVerifySignature acceptingLib u a s = Inr True"
  by (simp add: internalVerifySignature_def acceptingLib_def)

text \<open>
  Verifying a built URI against the endpoint and nonce it was built from succeeds whenever
  parsing the URI again, under the substituted scheme \<^verbatim>\<open>http:\<close>, gives back the endpoint's
  host and pathname and the two parameters.
\<close>

lemma roundtrip_when_reparse_agrees:
  assumes g: "generateDigiIDUri P entropy \<lparr>callbackUrl = Some E, nonce = Some N, unsecure = f\<rparr>
               = Inr U"
    and e: "E \<noteq> []" "P E = Inr pe"
    and n: "N \<noteq> []"
    and p: "a \<noteq> []" "sg \<noteq> []"
    and r: "P (replace_digiid U) = Inr pr" "host pr @ pathname pr = host pe @ pathname pe"
           "searchParams_get pr ''x'' = Some N"
           "searchParams_get pr ''u'' = Some (if truthy_bool f then ''1'' else ''0'')"
    and s: "h U a sg = Inr True"
  shows "verifyDigiIDCallback P h \<lparr>address = a, uri = U, signature = sg\<rparr>
           \<lparr>expectedCallbackUrl = Str E, expectedNonce = Some N\<rparr>
         = Inr \<lparr>isValid = True, res_address = a, res_nonce = N\<rparr>"
proof -
  let ?o = "\<lparr>callbackUrl = Some E, nonce = Some N, unsecure = f\<rparr>"
  have t: "truthy_string (callbackUrl ?o)" using e(1) by (simp add: truthy_string_def)
  have q: "P (the (callbackUrl ?o)) = Inr pe" using e(2) by simp
  note ga = generate_accepted[where P = P and options = ?o and u = pe and entropy = entropy,
              OF t q]
  have sch: "(truthy_bool f \<longrightarrow> protocol pe = ''http:'')
             \<and> (\<not> truthy_bool f \<longrightarrow> protocol pe = ''https:'')"
    using g unfolding ga by (auto split: if_splits)
  have u: "U \<noteq> []" using g unfolding ga by (auto split: if_splits)
  show ?thesis
    using verify_steps[where cb = "\<lparr>address = a, uri = U, signature = sg\<rparr>" and P = P
        and pr = pr and rn = N and ru = "if truthy_bool f then ''1'' else ''0''"
        and vo = "\<lparr>expectedCallbackUrl = Str E, expectedNonce = Some N\<rparr>" and pe = pe
        and h = h] p u r e(2) s sch
    by (auto simp: truthy_string_def)
qed


text \<open>
  Claim C6 says that verifying the URI built for an endpoint \<open>E\<close> and nonce \<open>N\<close>, with
  \<open>E\<close> and \<open>N\<close> expected and a capability that returns true, resolves with the payload's
  address and \<open>N\<close>. The program does not do so for the endpoint
  \<^verbatim>\<open>https://example.com:80/callback\<close>: the builder accepts it and keeps the port in the URI,
  the verifier parses the URI as an \<^verbatim>\<open>http:\<close> URL, for which 80 is the default port and is
  dropped from the host, and the comparison with the endpoint's own host, which keeps the
  port, rejects the callback.
\<close>

theorem C6_roundtrip_port_80:
  "generateDigiIDUri URL_new fixedEntropy
     \<lparr>callbackUrl = Some ''https://example.com:80/callback'', nonce = Some ''abc'',
      unsecure = None\<rparr>
   = Inr ''digiid://example.com:80/callback?x=abc&u=0''
   \<and> verifyDigiIDCallback URL_new (internalVerifySignature acceptingLib)
     \<lparr>address = ''D7dVskXFpH8gTgZG9sN3d6dPUbJtZfJ2Vc'',
      uri = ''digiid://example.com:80/callback?x=abc&u=0'', signature = ''AAEC''\<rparr>
     \<lparr>expectedCallbackUrl = Str ''https://example.com:80/callback'',
      expectedNonce = Some ''abc''\<rparr>
   = Inl (DigiIDError
       (callback_mismatch_message ''example.com/callback'' ''example.com:80/callback''))"
proof -
  have g: "generateDigiIDUri URL_new fixedEntropy
     \<lparr>callbackUrl = Some ''https://example.com:80/callback'', nonce = Some ''abc'',
      unsecure = None\<rparr>
   = Inr ''digiid://example.com:80/callback?x=abc&u=0''"
    by (simp add: generate_accepted[where u = "\<lparr>protocol = ''https:'',
          host = ''example.com:80'', pathname = ''/callback'', searchParams = []\<rparr>"]
        parse_https_port80 truthy_string_def truthy_bool_def)
  have v: "verifyDigiIDCallback URL_new (internalVerifySignature acceptingLib)
     \<lparr>address = ''D7dVskXFpH8gTgZG9sN3d6dPUbJtZfJ2Vc'',
      uri = ''digiid://example.com:80/callback?x=abc&u=0'', signature = ''AAEC''\<rparr>
     \<lparr>expectedCallbackUrl = Str ''https://example.com:80/callback'',
      expectedNonce = Some ''abc''\<rparr>
   = Inl (DigiIDError
       (callback_mismatch_message ''example.com/callback'' ''example.com:80/callback''))"
    by (simp add: verify_steps[where pr = "\<lparr>protocol = ''http:'', host = ''example.com'',
            pathname = ''/callback'', searchParams = [(''x'', ''abc''), (''u'', ''0'')]\<rparr>"
          and pe = "\<lparr>protocol = ''https:'', host = ''example.com:80'',
            pathname = ''/callback'', searchParams = []\<rparr>"
          and rn = "''abc''" and ru = "''0''"]
        parse_challenge_port80 parse_https_port80 searchParams_get_def)
  from g v show ?thesis by (rule conjI)
qed

section \<open>The nonce check of the verifier\<close>

text \<open>
  Claim C7 as stated fails in its second half: with \<^verbatim>\<open>expectedNonce\<close> supplied as the empty
  string and the nonce \<^verbatim>\<open>abc\<close> in the URI, the two differ and yet the verifier resolves.
\<close>

theorem C7_empty_expected_nonce_counterexample:
  "verifyDigiIDCallback URL_new (internalVerifySignature acceptingLib)
     \<lparr>address = ''D7dVskXFpH8gTgZG9sN3d6dPUbJtZfJ2Vc'',
      uri = ''digiid://example.com/callback?x=abc&u=0'', signature = ''AAEC''\<rparr>
     \<lparr>expectedCallbackUrl = Str ''https://example.com/callback'', expectedNonce = Some []\<rparr>
   = Inr \<lparr>isValid = True, res_address = ''D7dVskXFpH8gTgZG9sN3d6dPUbJtZfJ2Vc'',
          res_nonce = ''abc''\<rparr>"
  by (simp add: verify_steps[where pr = "\<lparr>protocol = ''http:'', host = ''example.com'',
          pathname = ''/callback'', searchParams = [(''x'', ''abc''), (''u'', ''0'')]\<rparr>"
        and pe = "\<lparr>protocol = ''https:'', host = ''example.com'',
          pathname = ''/callback'', searchParams = []\<rparr>"
        and rn = "''abc''" and ru = "''0''"]
      parse_challenge_abc_u0 parse_https_callback searchParams_get_def
      truthy_string_def accepting_helper)

text \<open>
  Claim C7, amended. When \<^verbatim>\<open>expectedNonce\<close> is omitted, the verifier never raises the nonce
  mismatch error, whatever the payload. When it is supplied and is not the empty string,
  and the earlier steps of the pipeline pass, the check is string equality with the
  received nonce: a difference raises the nonce mismatch error with both values, and
  equality does not raise it.
\<close>

theorem C7_nonce_check:
  "(expectedNonce vo = None \<longrightarrow>
      verifyDigiIDCallback P (internalVerifySignature lib) cb vo
        \<noteq> Inl (DigiIDError (nonce_mismatch_message r e)))
   \<and> (address cb \<noteq> [] \<and> uri cb \<noteq> [] \<and> signature cb \<noteq> []
      \<and> P (replace_digiid (uri cb)) = Inr pr
      \<and> searchParams_get pr ''x'' = Some rn
      \<and> searchParams_get pr ''u'' = Some ru
      \<and> (case expectedCallbackUrl vo of Str s \<Rightarrow> P s | Obj u \<Rightarrow> Inr u) = Inr pe
      \<and> host pr @ pathname pr = host pe @ pathname pe
      \<and> \<not> (ru = ''1'' \<and> protocol pe \<noteq> ''http:'')
      \<and> \<not> (ru = ''0'' \<and> protocol pe \<noteq> ''https:'')
      \<and> expectedNonce vo = Some en \<and> en \<noteq> [] \<longrightarrow>
        (rn \<noteq> en \<longrightarrow>
           verifyDigiIDCallback P h cb vo = Inl (DigiIDError (nonce_mismatch_message rn en)))
        \<and> (rn = en \<longrightarrow>
           verifyDigiIDCallback P (internalVerifySignature lib) cb vo
             \<noteq> Inl (DigiIDError (nonce_mismatch_message r e))))"
proof (intro conjI impI)
  assume "expectedNonce vo = None"
  then have "\<not> truthy_string (expectedNonce vo)" by (simp add: truthy_string_def)
  then show "verifyDigiIDCallback P (internalVerifySignature lib) cb vo
        \<noteq> Inl (DigiIDError (nonce_mismatch_message r e))"
    by (rule verify_never_nonce_mismatch)
next
  assume a: "address cb \<noteq> [] \<and> uri cb \<noteq> [] \<and> signature cb \<noteq> []
      \<and> P (replace_digiid (uri cb)) = Inr pr
      \<and> searchParams_get pr ''x'' = Some rn
      \<and> searchParams_get pr ''u'' = Some ru
      \<and> (case expectedCallbackUrl vo of Str s \<Rightarrow> P s | Obj u \<Rightarrow> Inr u) = Inr pe
      \<and> host pr @ pathname pr = host pe @ pathname pe
      \<and> \<not> (ru = ''1'' \<and> protocol pe \<noteq> ''http:'')
      \<and> \<not> (ru = ''0'' \<and> protocol pe \<noteq> ''https:'')
      \<and> expectedNonce vo = Some en \<and> en \<noteq> []"
  assume "rn \<noteq> en"
  with a show "verifyDigiIDCallback P h cb vo
                 = Inl (DigiIDError (nonce_mismatch_message rn en))"
    using verify_steps[of cb P pr rn ru vo pe h] by (auto simp: truthy_string_def)
next
  assume a: "address cb \<noteq> [] \<and> uri cb \<noteq> [] \<and> signature cb \<noteq> []
      \<and> P (replace_digiid (uri cb)) = Inr pr
      \<and> searchParams_get pr ''x'' = Some rn
      \<and> searchParams_get pr ''u'' = Some ru
      \<and> (case expectedCallbackUrl vo of Str s \<Rightarrow> P s | Obj u \<Rightarrow> Inr u) = Inr pe
      \<and> host pr @ pathname pr = host pe @ pathname pe
      \<and> \<not> (ru = ''1'' \<and> protocol pe \<noteq> ''http:'')
      \<and> \<not> (ru = ''0'' \<and> protocol pe \<noteq> ''https:'')
      \<and> expectedNonce vo = Some en \<and> en \<noteq> []"
  assume "rn = en"
  with a show "verifyDigiIDCallback P (internalVerifySignature lib) cb vo
             \<noteq> Inl (DigiIDError (nonce_mismatch_message r e))"
    by (auto simp: verify_unfold split: verify_splits)
qed


text \<open>The default payload without an expected nonce, and the test "nonce mismatch".\<close>

theorem C7_nonce_check_witness:
  "verifyDigiIDCallback URL_new (internalVerifySignature acceptingLib)
     \<lparr>address = ''D7dVskXFpH8gTgZG9sN3d6dPUbJtZfJ2Vc'',
      uri = ''digiid://example.com/callback?x=abc&u=0'', signature = ''AAEC''\<rparr>
     \<lparr>expectedCallbackUrl = Str ''https://example.com/callback'', expectedNonce = None\<rparr>
   \<noteq> Inl (DigiIDError (nonce_mismatch_message ''abc'' ''different-nonce''))
   \<and> verifyDigiIDCallback URL_new (internalVerifySignature acceptingLib)
     \<lparr>address = ''D7dVskXFpH8gTgZG9sN3d6dPUbJtZfJ2Vc'',
      uri = ''digiid://example.com/callback?x=abc&u=0'', signature = ''AAEC''\<rparr>
     \<lparr>expectedCallbackUrl = Str ''https://example.com/callback'',
      expectedNonce = Some ''different-nonce''\<rparr>
   = Inl (DigiIDError (nonce_mismatch_message ''abc'' ''different-nonce''))"
proof -
  let ?cb = "\<lparr>address = ''D7dVskXFpH8gTgZG9sN3d6dPUbJtZfJ2Vc'',
               uri = ''digiid://example.com/callback?x=abc&u=0'', signature = ''AAEC''\<rparr>"
  let ?pr = "\<lparr>protocol = ''http:'', host = ''example.com'', pathname = ''/callback'',
               searchParams = [(''x'', ''abc''), (''u'', ''0'')]\<rparr>"
  let ?pe = "\<lparr>protocol = ''https:'', host = ''example.com'', pathname = ''/callback'',
               searchParams = []\<rparr>"
  have a: "verifyDigiIDCallback URL_new (internalVerifySignature acceptingLib) ?cb
     \<lparr>expectedCallbackUrl = Str ''https://example.com/callback'', expectedNonce = None\<rparr>
   \<noteq> Inl (DigiIDError (nonce_mismatch_message ''abc'' ''different-nonce''))"
    using C7_nonce_check[where
        vo = "\<lparr>expectedCallbackUrl = Str ''https://example.com/callback'',
                expectedNonce = None\<rparr>"
        and P = URL_new and lib = acceptingLib and cb = ?cb
        and r = "''abc''" and e = "''different-nonce''"]
    by simp
  have b: "verifyDigiIDCallback URL_new (internalVerifySignature acceptingLib) ?cb
     \<lparr>expectedCallbackUrl = Str ''https://example.com/callback'',
      expectedNonce = Some ''different-nonce''\<rparr>
   = Inl (DigiIDError (nonce_mismatch_message ''abc'' ''different-nonce''))"
    using C7_nonce_check[where
        vo = "\<lparr>expectedCallbackUrl = Str ''https://example.com/callback'',
                expectedNonce = Some ''different-nonce''\<rparr>"
        and P = URL_new and h = "internalVerifySignature acceptingLib" and cb = ?cb
        and pr = ?pr and pe = ?pe and rn = "''abc''" and ru = "''0''"
        and en = "''different-nonce''"]
    by (simp add: parse_challenge_abc_u0 parse_https_callback searchParams_get_def)
  from a b show ?thesis by (rule conjI)
qed

section \<open>Signature delegation\<close>

text \<open>
  Claim C8. For a payload that has passed every earlier step: a helper that returns false
  gives the error \<^verbatim>\<open>Invalid signature.\<close>; a helper that throws a \<^verbatim>\<open>DigiIDError\<close> gives
  that same error; a helper that throws any other value with a message gives a
  \<^verbatim>\<open>DigiIDError\<close> whose message is \<^verbatim>\<open>Unexpected error during signature verification: \<close>
  followed by the original message.
\<close>

theorem C8_signature_delegation:
  assumes "address cb \<noteq> []" "uri cb \<noteq> []" "signature cb \<noteq> []"
    and "P (replace_digiid (uri cb)) = Inr pr"
    and "searchParams_get pr ''x'' = Some rn"
    and "searchParams_get pr ''u'' = Some ru"
    and "(case expectedCallbackUrl vo of Str s \<Rightarrow> P s | Obj u \<Rightarrow> Inr u) = Inr pe"
    and "host pr @ pathname pr = host pe @ pathname pe"
    and "\<not> (ru = ''1'' \<and> protocol pe \<noteq> ''http:'')"
    and "\<not> (ru = ''0'' \<and> protocol pe \<noteq> ''https:'')"
    and "\<not> (truthy_string (expectedNonce vo) \<and> rn \<noteq> the (expectedNonce vo))"
  shows "(h (uri cb) (address cb) (signature cb) = Inr False \<longrightarrow>
            verifyDigiIDCallback P h cb vo = Inl (DigiIDError ''Invalid signature.''))
       \<and> (h (uri cb) (address cb) (signature cb) = Inl (DigiIDError m) \<longrightarrow>
            verifyDigiIDCallback P h cb vo = Inl (DigiIDError m))
       \<and> (h (uri cb) (address cb) (signature cb) = Inl (OtherError (Some m) s) \<longrightarrow>
            verifyDigiIDCallback P h cb vo = Inl (DigiIDError
              (''Unexpected error during signature verification: '' @ m)))"
proof -
  have eq: "verifyDigiIDCallback P h cb vo =
      (case h (uri cb) (address cb) (signature cb) of
              Inr b \<Rightarrow> if \<not> b then Inl (DigiIDError ''Invalid signature.'')
                       else Inr \<lparr>isValid = True, res_address = address cb, res_nonce = rn\<rparr>
            | Inl (DigiIDError m) \<Rightarrow> Inl (DigiIDError m)
            | Inl (OtherError m s) \<Rightarrow>
                Inl (DigiIDError (''Unexpected error during signature verification: ''
                                  @ message_text (OtherError m s))))"
    using verify_steps[OF assms(1-7), of h] assms(8-11) by auto
  show ?thesis unfolding eq by (simp add: message_text_def)
qed

text \<open>The production helper over a library that rejects, one that throws, and one that
  cannot be loaded.\<close>

theorem C8_signature_delegation_witness:
  "verifyDigiIDCallback URL_new (internalVerifySignature rejectingLib)
     \<lparr>address = ''D7dVskXFpH8gTgZG9sN3d6dPUbJtZfJ2Vc'',
      uri = ''digiid://example.com/callback?x=abc&u=0'', signature = ''AAEC''\<rparr>
     \<lparr>expectedCallbackUrl = Str ''https://example.com/callback'', expectedNonce = Some ''abc''\<rparr>
   = Inl (DigiIDError ''Invalid signature.'')
   \<and> verifyDigiIDCallback URL_new (internalVerifySignature throwingLib)
     \<lparr>address = ''D7dVskXFpH8gTgZG9sN3d6dPUbJtZfJ2Vc'',
      uri = ''digiid://example.com/callback?x=abc&u=0'', signature = ''AAEC''\<rparr>
     \<lparr>expectedCallbackUrl = Str ''https://example.com/callback'', expectedNonce = Some ''abc''\<rparr>
   = Inl (DigiIDError ''Signature verification failed: Malformed signature'')
   \<and> verifyDigiIDCallback URL_new (internalVerifySignature missingLib)
     \<lparr>address = ''D7dVskXFpH8gTgZG9sN3d6dPUbJtZfJ2Vc'',
      uri = ''digiid://example.com/callback?x=abc&u=0'', signature = ''AAEC''\<rparr>
     \<lparr>expectedCallbackUrl = Str ''https://example.com/callback'', expectedNonce = Some ''abc''\<rparr>
   = Inl (DigiIDError ''Unexpected error during signature verification: Cannot find module'')"
proof -
  let ?cb = "\<lparr>address = ''D7dVskXFpH8gTgZG9sN3d6dPUbJtZfJ2Vc'',
               uri = ''digiid://example.com/callback?x=abc&u=0'', signature = ''AAEC''\<rparr>"
  let ?vo = "\<lparr>expectedCallbackUrl = Str ''https://example.com/callback'',
               expectedNonce = Some ''abc''\<rparr>"
  let ?pr = "\<lparr>protocol = ''http:'', host = ''example.com'', pathname = ''/callback'',
               searchParams = [(''x'', ''abc''), (''u'', ''0'')]\<rparr>"
  let ?pe = "\<lparr>protocol = ''https:'', host = ''example.com'', pathname = ''/callback'',
               searchParams = []\<rparr>"
  note inst = C8_signature_delegation[where cb = ?cb and vo = ?vo and P = URL_new
      and pr = ?pr and pe = ?pe and rn = "''abc''" and ru = "''0''"]
  have a: "verifyDigiIDCallback URL_new (internalVerifySignature rejectingLib) ?cb ?vo
             = Inl (DigiIDError ''Invalid signature.'')"
    using inst[where h = "internalVerifySignature rejectingLib"]
    by (simp add: parse_challenge_abc_u0 parse_https_callback searchParams_get_def
          truthy_string_def internalVerifySignature_def rejectingLib_def)
  have b: "verifyDigiIDCallback URL_new (internalVerifySignature throwingLib) ?cb ?vo
             = Inl (DigiIDError ''Signature verification failed: Malformed signature'')"
    using inst[where h = "internalVerifySignature throwingLib"
                 and m = "''Signature verification failed: Malformed signature''"]
    by (simp add: parse_challenge_abc_u0 parse_https_callback searchParams_get_def
          truthy_string_def internalVerifySignature_def throwingLib_def message_or_string_def)
  have c: "verifyDigiIDCallback URL_new (internalVerifySignature missingLib) ?cb ?vo
             = Inl (DigiIDError
                 ''Unexpected error during signature verification: Cannot find module'')"
    using inst[where h = "internalVerifySignature missingLib"
                 and m = "''Cannot find module''" and s = "''Error: Cannot find module''"]
    by (simp add: parse_challenge_abc_u0 parse_https_callback searchParams_get_def
          truthy_string_def internalVerifySignature_def missingLib_def)
  from a b c show ?thesis by blast
qed

section \<open>Endpoint match\<close>

text \<open>
  Claim C9. For a payload whose challenge URI and expected endpoint both parse: when host
  + pathname of the URI differs as a string from host + pathname of the expected endpoint,
  the verifier rejects with the message \<^verbatim>\<open>Callback URL mismatch: URI contained "R",
  expected "E"\<close>, where \<open>R\<close> is the received and \<open>E\<close> the expected host + pathname; when
  they are equal, it raises no error of that form.
\<close>

theorem C9_endpoint_match:
  assumes "address cb \<noteq> []" "uri cb \<noteq> []" "signature cb \<noteq> []"
    and "P (replace_digiid (uri cb)) = Inr pr"
    and "searchParams_get pr ''x'' = Some rn"
    and "searchParams_get pr ''u'' = Some ru"
    and "(case expectedCallbackUrl vo of Str s \<Rightarrow> P s | Obj u \<Rightarrow> Inr u) = Inr pe"
  shows \<open>(host pr @ pathname pr \<noteq> host pe @ pathname pe \<longrightarrow>
            verifyDigiIDCallback P h cb vo = Inl (DigiIDError
              (''Callback URL mismatch: URI contained "'' @ (host pr @ pathname pr)
               @ ''", expected "'' @ (host pe @ pathname pe) @ ''"'')))
       \<and> (host pr @ pathname pr = host pe @ pathname pe \<longrightarrow>
            verifyDigiIDCallback P (internalVerifySignature lib) cb vo
              \<noteq> Inl (DigiIDError
                    (''Callback URL mismatch: URI contained "'' @ r
                     @ ''", expected "'' @ e @ ''"'')))\<close>
proof -
  have a: \<open>host pr @ pathname pr \<noteq> host pe @ pathname pe \<longrightarrow>
            verifyDigiIDCallback P h cb vo = Inl (DigiIDError
              (''Callback URL mismatch: URI contained "'' @ (host pr @ pathname pr)
               @ ''", expected "'' @ (host pe @ pathname pe) @ ''"''))\<close>
    using verify_steps[OF assms, of h] by (simp add: callback_mismatch_message_def)
  have b: \<open>host pr @ pathname pr = host pe @ pathname pe \<longrightarrow>
            verifyDigiIDCallback P (internalVerifySignature lib) cb vo
              \<noteq> Inl (DigiIDError
                    (''Callback URL mismatch: URI contained "'' @ r
                     @ ''", expected "'' @ e @ ''"''))\<close>
    using assms by (auto simp: verify_unfold split: verify_splits)
  from a b show ?thesis by (rule conjI)
qed

text \<open>The scenario \<^verbatim>\<open>example.com/callback\<close> against \<^verbatim>\<open>different.com/callback\<close>, and
  the matching endpoint.\<close>

theorem C9_endpoint_match_witness:
  \<open>verifyDigiIDCallback URL_new (internalVerifySignature acceptingLib)
     \<lparr>address = ''D7dVskXFpH8gTgZG9sN3d6dPUbJtZfJ2Vc'',
      uri = ''digiid://example.com/callback?x=abc&u=0'', signature = ''AAEC''\<rparr>
     \<lparr>expectedCallbackUrl = Str ''https://different.com/callback'',
      expectedNonce = Some ''abc''\<rparr>
   = Inl (DigiIDError ''Callback URL mismatch: URI contained "example.com/callback", expected "different.com/callback"'')
   \<and> verifyDigiIDCallback URL_new (internalVerifySignature acceptingLib)
     \<lparr>address = ''D7dVskXFpH8gTgZG9sN3d6dPUbJtZfJ2Vc'',
      uri = ''digiid://example.com/callback?x=abc&u=0'', signature = ''AAEC''\<rparr>
     \<lparr>expectedCallbackUrl = Str ''https://example.com/callback'',
      expectedNonce = Some ''abc''\<rparr>
   \<noteq> Inl (DigiIDError ''Callback URL mismatch: URI contained "example.com/callback", expected "example.com/callback"'')\<close>
proof -
  let ?cb = "\<lparr>address = ''D7dVskXFpH8gTgZG9sN3d6dPUbJtZfJ2Vc'',
               uri = ''digiid://example.com/callback?x=abc&u=0'', signature = ''AAEC''\<rparr>"
  let ?pr = "\<lparr>protocol = ''http:'', host = ''example.com'', pathname = ''/callback'',
               searchParams = [(''x'', ''abc''), (''u'', ''0'')]\<rparr>"
  note inst = C9_endpoint_match[where cb = ?cb and P = URL_new and pr = ?pr
      and rn = "''abc''" and ru = "''0''"]
  have a: \<open>verifyDigiIDCallback URL_new (internalVerifySignature acceptingLib) ?cb
     \<lparr>expectedCallbackUrl = Str ''https://different.com/callback'',
      expectedNonce = Some ''abc''\<rparr>
   = Inl (DigiIDError ''Callback URL mismatch: URI contained "example.com/callback", expected "different.com/callback"'')\<close>
    using inst[where vo = "\<lparr>expectedCallbackUrl = Str ''https://different.com/callback'',
                            expectedNonce = Some ''abc''\<rparr>"
        and pe = "\<lparr>protocol = ''https:'', host = ''different.com'',
                    pathname = ''/callback'', searchParams = []\<rparr>"
        and h = "internalVerifySignature acceptingLib"]
    by (simp add: parse_challenge_abc_u0 parse_https_different searchParams_get_def
          callback_mismatch_message_def)
  have b: \<open>verifyDigiIDCallback URL_new (internalVerifySignature acceptingLib) ?cb
     \<lparr>expectedCallbackUrl = Str ''https://example.com/callback'',
      expectedNonce = Some ''abc''\<rparr>
   \<noteq> Inl (DigiIDError ''Callback URL mismatch: URI contained "example.com/callback", expected "example.com/callback"'')\<close>
    using inst[where vo = "\<lparr>expectedCallbackUrl = Str ''https://example.com/callback'',
                            expectedNonce = Some ''abc''\<rparr>"
        and pe = "\<lparr>protocol = ''https:'', host = ''example.com'',
                    pathname = ''/callback'', searchParams = []\<rparr>"
        and lib = acceptingLib
        and r = "''example.com/callback''" and e = "''example.com/callback''"]
    by (simp add: parse_challenge_abc_u0 parse_https_callback searchParams_get_def
          callback_mismatch_message_def)
  from a b show ?thesis by (rule conjI)
qed

section \<open>The empty expected nonce\<close>

text \<open>
  Claim C10. For every payload, helper and options, the verifier with \<^verbatim>\<open>expectedNonce\<close>
  equal to the empty string returns what it returns with \<^verbatim>\<open>expectedNonce\<close> omitted, and
  never raises the nonce mismatch error.
\<close>

theorem C10_empty_expected_nonce:
  "verifyDigiIDCallback P h cb (vo\<lparr>expectedNonce := Some []\<rparr>)
     = verifyDigiIDCallback P h cb (vo\<lparr>expectedNonce := None\<rparr>)
   \<and> verifyDigiIDCallback P (internalVerifySignature lib) cb (vo\<lparr>expectedNonce := Some []\<rparr>)
       \<noteq> Inl (DigiIDError (nonce_mismatch_message r e))"
proof
  show "verifyDigiIDCallback P h cb (vo\<lparr>expectedNonce := Some []\<rparr>)
     = verifyDigiIDCallback P h cb (vo\<lparr>expectedNonce := None\<rparr>)"
    by (simp add: verifyDigiIDCallback_def truthy_string_def Let_def split: sum.splits)
  have "\<not> truthy_string (expectedNonce (vo\<lparr>expectedNonce := Some []\<rparr>))"
    by (simp add: truthy_string_def)
  then show "verifyDigiIDCallback P (internalVerifySignature lib) cb
               (vo\<lparr>expectedNonce := Some []\<rparr>)
       \<noteq> Inl (DigiIDError (nonce_mismatch_message r e))"
    by (rule verify_never_nonce_mismatch)
qed

end
